theory Spec2Isabelle
  imports Complex_Main "HOL-Library.List_Lexorder" "HOL-Library.Char_ord" "HOL-Library.Option_ord"
    "HOL-Library.Product_Lexorder" "HOL-Library.Multiset"
begin

section \<open>Values exchanged with the collaborators\<close>

text \<open>
  A JSON value, as \<open>JSON.parse\<close> produces it and \<open>JSON.stringify\<close> consumes it.
  An object is the list of its members in the order they were written.  A number
  keeps its literal text: JavaScript reads it as the nearest double, and nothing
  below depends on its numeric value.
\<close>

datatype json =
    JNull
  | JBool bool
  | JNumber string
  | JString string
  | JArray "json list"
  | JObject "(string \<times> json) list"

text \<open>
  \<open>new Response(JSON.stringify(v), {status, headers})\<close>: the status (200 when the
  source gives none) and the value that is serialised into the body.
\<close>

record response =
  status :: nat
  body :: json

text \<open>
  The generative-text capability \<open>env.AI.run(model, {messages, max_tokens})\<close>.  The call
  either throws (the message of the error is kept) or resolves to an object whose
  \<open>response\<close> field is a string.
\<close>

record ai_request =
  model :: string
  system_content :: string
  user_content :: string
  max_tokens :: nat

datatype ai_outcome = AiThrows string | AiResolves string

type_synonym ai = "ai_request \<Rightarrow> ai_outcome"

definition LF :: string where
  "LF = [CHR 0x0A]"

definition DQ :: string where
  "DQ = [CHR 0x22]"

text \<open>\<open>Array.prototype.join\<close> on an array of strings.\<close>

fun join :: "string \<Rightarrow> string list \<Rightarrow> string" where
  "join sep [] = []"
| "join sep [x] = x"
| "join sep (x # y # ys) = x @ sep @ join sep (y # ys)"

section \<open>The built-in \<open>JSON.parse\<close>\<close>

text \<open>
  \<open>JSON.parse\<close> is a recursive-descent reader of the JSON grammar (ECMA-404): white
  space is space, tab, line feed and carriage return; a string may not hold a raw
  control character and knows the escapes \<open>" \ / b f n r t uXXXX\<close>; a number is
  \<open>-? (0 | [1-9][0-9]*) (. [0-9]+)? ([eE] [+-]? [0-9]+)?\<close>; the whole text must be one
  value.  Strings are byte sequences here, so a \<open>\uXXXX\<close> escape yields the UTF-8 bytes
  of that code unit.  Every reader returns the value read and the rest of the text,
  or \<open>None\<close> where \<open>JSON.parse\<close> throws a SyntaxError.
\<close>

definition is_ws :: "char \<Rightarrow> bool" where
  "is_ws c = (c = CHR 0x20 \<or> c = CHR 0x09 \<or> c = CHR 0x0A \<or> c = CHR 0x0D)"

definition skip_ws :: "string \<Rightarrow> string" where
  "skip_ws s = dropWhile is_ws s"

definition is_digit :: "char \<Rightarrow> bool" where
  "is_digit c = (CHR ''0'' \<le> c \<and> c \<le> CHR ''9'')"

definition hex_val :: "char \<Rightarrow> nat option" where
  "hex_val c =
     (if CHR ''0'' \<le> c \<and> c \<le> CHR ''9'' then Some (of_char c - 48)
      else if CHR ''a'' \<le> c \<and> c \<le> CHR ''f'' then Some (of_char c - 87)
      else if CHR ''A'' \<le> c \<and> c \<le> CHR ''F'' then Some (of_char c - 55)
      else None)"

definition utf8_of_unit :: "nat \<Rightarrow> string" where
  "utf8_of_unit u =
     (if u < 0x80 then [char_of u]
      else if u < 0x800 then [char_of (0xC0 + u div 64), char_of (0x80 + u mod 64)]
      else [char_of (0xE0 + u div 4096), char_of (0x80 + (u div 64) mod 64), char_of (0x80 + u mod 64)])"

definition escape_char :: "char \<Rightarrow> char option" where
  "escape_char e =
     (if e = CHR 0x22 then Some (CHR 0x22)
      else if e = CHR 0x5C then Some (CHR 0x5C)
      else if e = CHR ''/'' then Some (CHR ''/'')
      else if e = CHR ''b'' then Some (CHR 0x08)
      else if e = CHR ''f'' then Some (CHR 0x0C)
      else if e = CHR ''n'' then Some (CHR 0x0A)
      else if e = CHR ''r'' then Some (CHR 0x0D)
      else if e = CHR ''t'' then Some (CHR 0x09)
      else None)"

fun parse_chars :: "string \<Rightarrow> (string \<times> string) option" where
  "parse_chars [] = None"
| "parse_chars (c # cs) =
     (if c = CHR 0x22 then Some ([], cs)
      else if c = CHR 0x5C then
        (case cs of
           [] \<Rightarrow> None
         | e # es \<Rightarrow>
             if e = CHR ''u'' then
               (case es of
                  h1 # h2 # h3 # h4 # r \<Rightarrow>
                    (case (hex_val h1, hex_val h2, hex_val h3, hex_val h4) of
                       (Some a, Some b, Some c', Some d) \<Rightarrow>
                         (case parse_chars r of
                            None \<Rightarrow> None
                          | Some (t, r') \<Rightarrow> Some (utf8_of_unit (((a * 16 + b) * 16 + c') * 16 + d) @ t, r'))
                     | _ \<Rightarrow> None)
                | _ \<Rightarrow> None)
             else
               (case escape_char e of
                  None \<Rightarrow> None
                | Some x \<Rightarrow>
                    (case parse_chars es of
                       None \<Rightarrow> None
                     | Some (t, r') \<Rightarrow> Some (x # t, r'))))
      else if (of_char c :: nat) < 0x20 then None
      else (case parse_chars cs of
              None \<Rightarrow> None
            | Some (t, r') \<Rightarrow> Some (c # t, r')))"


lemma parse_chars_shorter: "parse_chars s = Some (t, r) \<Longrightarrow> length r < length s"
proof (induction s arbitrary: t r rule: parse_chars.induct)
  case 1
  then show ?case by simp
next
  case (2 c cs)
  then show ?case
    by (fastforce split: if_splits list.splits option.splits prod.splits)
qed

definition digits_of :: "string \<Rightarrow> string \<times> string" where
  "digits_of s = (takeWhile is_digit s, dropWhile is_digit s)"

definition parse_int_part :: "string \<Rightarrow> (string \<times> string) option" where
  "parse_int_part s =
     (case s of
        [] \<Rightarrow> None
      | c # cs \<Rightarrow>
          if c = CHR ''0'' then Some ([c], cs)
          else if is_digit c then Some (digits_of s)
          else None)"

definition parse_frac_part :: "string \<Rightarrow> (string \<times> string) option" where
  "parse_frac_part s =
     (case s of
        [] \<Rightarrow> Some ([], s)
      | c # cs \<Rightarrow>
          if c = CHR ''.'' then
            (case digits_of cs of (ds, r) \<Rightarrow> if ds = [] then None else Some (c # ds, r))
          else Some ([], s))"

definition parse_exp_part :: "string \<Rightarrow> (string \<times> string) option" where
  "parse_exp_part s =
     (case s of
        [] \<Rightarrow> Some ([], s)
      | c # cs \<Rightarrow>
          if c = CHR ''e'' \<or> c = CHR ''E'' then
            (case cs of
               [] \<Rightarrow> None
             | g # gs \<Rightarrow>
                 if g = CHR ''+'' \<or> g = CHR ''-'' then
                   (case digits_of gs of (ds, r) \<Rightarrow> if ds = [] then None else Some (c # g # ds, r))
                 else
                   (case digits_of cs of (ds, r) \<Rightarrow> if ds = [] then None else Some (c # ds, r)))
          else Some ([], s))"

definition parse_number :: "string \<Rightarrow> (string \<times> string) option" where
  "parse_number s =
     (let (sign, s1) = (case s of [] \<Rightarrow> ([], s) | c # cs \<Rightarrow> if c = CHR ''-'' then ([c], cs) else ([], s))
      in case parse_int_part s1 of
           None \<Rightarrow> None
         | Some (ip, s2) \<Rightarrow>
             (case parse_frac_part s2 of
                None \<Rightarrow> None
              | Some (fp, s3) \<Rightarrow>
                  (case parse_exp_part s3 of
                     None \<Rightarrow> None
                   | Some (ep, s4) \<Rightarrow> Some (sign @ ip @ fp @ ep, s4))))"

definition strip_prefix :: "string \<Rightarrow> string \<Rightarrow> string option" where
  "strip_prefix p s = (if take (length p) s = p then Some (drop (length p) s) else None)"

lemma length_skip_ws: "length (skip_ws s) \<le> length s"
  by (simp add: skip_ws_def length_dropWhile_le)

lemma skip_ws_Cons_shorter: "skip_ws r = d # r' \<Longrightarrow> length r' < length r"
  using length_skip_ws [of r] by simp

function parse_value :: "string \<Rightarrow> (json \<times> string) option"
  and parse_elements :: "string \<Rightarrow> (json list \<times> string) option"
  and parse_members :: "string \<Rightarrow> ((string \<times> json) list \<times> string) option"
where
  "parse_value s =
     (case s of
        [] \<Rightarrow> None
      | c # cs \<Rightarrow>
          if c = CHR ''{'' then
            (case skip_ws cs of
               [] \<Rightarrow> None
             | d # r \<Rightarrow>
                 if d = CHR ''}'' then Some (JObject [], r)
                 else (case parse_members (skip_ws cs) of
                         None \<Rightarrow> None
                       | Some (ms, r') \<Rightarrow> Some (JObject ms, r')))
          else if c = CHR ''['' then
            (case skip_ws cs of
               [] \<Rightarrow> None
             | d # r \<Rightarrow>
                 if d = CHR '']'' then Some (JArray [], r)
                 else (case parse_elements (skip_ws cs) of
                         None \<Rightarrow> None
                       | Some (vs, r') \<Rightarrow> Some (JArray vs, r')))
          else if c = CHR 0x22 then
            (case parse_chars cs of
               None \<Rightarrow> None
             | Some (t, r) \<Rightarrow> Some (JString t, r))
          else if c = CHR ''-'' \<or> is_digit c then
            (case parse_number s of
               None \<Rightarrow> None
             | Some (n, r) \<Rightarrow> Some (JNumber n, r))
          else
            (case strip_prefix ''true'' s of
               Some r \<Rightarrow> Some (JBool True, r)
             | None \<Rightarrow>
                 (case strip_prefix ''false'' s of
                    Some r \<Rightarrow> Some (JBool False, r)
                  | None \<Rightarrow>
                      (case strip_prefix ''null'' s of
                         Some r \<Rightarrow> Some (JNull, r)
                       | None \<Rightarrow> None))))"
| "parse_elements s =
     (case parse_value s of
        None \<Rightarrow> None
      | Some (v, r) \<Rightarrow>
          (case skip_ws r of
             [] \<Rightarrow> None
           | d # r' \<Rightarrow>
               if d = CHR '']'' then Some ([v], r')
               else if d = CHR '','' \<and> length (skip_ws r') < length s then
                 (case parse_elements (skip_ws r') of
                    None \<Rightarrow> None
                  | Some (vs, r'') \<Rightarrow> Some (v # vs, r''))
               else None))"
| "parse_members s =
     (case s of
        [] \<Rightarrow> None
      | q # cs \<Rightarrow>
          if q = CHR 0x22 then
            (case parse_chars cs of
               None \<Rightarrow> None
             | Some (k, r) \<Rightarrow>
                 (case skip_ws r of
                    [] \<Rightarrow> None
                  | col # r1 \<Rightarrow>
                      if col = CHR '':'' then
                        (case parse_value (skip_ws r1) of
                           None \<Rightarrow> None
                         | Some (v, r2) \<Rightarrow>
                             (case skip_ws r2 of
                                [] \<Rightarrow> None
                              | d # r3 \<Rightarrow>
                                  if d = CHR ''}'' then Some ([(k, v)], r3)
                                  else if d = CHR '','' \<and> length (skip_ws r3) < length s then
                                    (case parse_members (skip_ws r3) of
                                       None \<Rightarrow> None
                                     | Some (ms, r4) \<Rightarrow> Some ((k, v) # ms, r4))
                                  else None))
                      else None))
          else None)"
  by pat_completeness auto

termination parse_value
proof (relation "measure (\<lambda>x. case x of
          Inl s \<Rightarrow> 2 * length s
        | Inr (Inl s) \<Rightarrow> 2 * length s + 1
        | Inr (Inr s) \<Rightarrow> 2 * length s + 1)", goal_cases)
  case 1
  then show ?case by simp
next
  case (2 s c cs d r)
  then show ?case using length_skip_ws [of cs] by simp
next
  case (3 s c cs d r)
  then show ?case using length_skip_ws [of cs] by simp
next
  case (4 s)
  then show ?case by simp
next
  case (5 s x v r d r')
  then show ?case by simp
next
  case (6 s q cs x k r col r1)
  then show ?case
    using parse_chars_shorter [of cs k r] skip_ws_Cons_shorter [of r col r1] length_skip_ws [of r1]
    by simp
next
  case (7 s q cs x k r col r1 y v r2 d r3)
  then show ?case by simp
qed


declare parse_value.simps [simp del] parse_elements.simps [simp del] parse_members.simps [simp del]

lemma digits_of_length: "digits_of s = (ds, r) \<Longrightarrow> length s = length ds + length r"
  unfolding digits_of_def
  by (metis Pair_inject length_append takeWhile_dropWhile_id)

lemma parse_int_part_shorter: "parse_int_part s = Some (ip, r) \<Longrightarrow> length r < length s"
  unfolding parse_int_part_def digits_of_def
  by (auto split: list.splits if_splits intro: le_imp_less_Suc length_dropWhile_le)

lemma parse_frac_part_le: "parse_frac_part s = Some (fp, r) \<Longrightarrow> length r \<le> length s"
  unfolding parse_frac_part_def
  by (auto split: list.splits if_splits prod.splits dest: digits_of_length)

lemma parse_exp_part_le: "parse_exp_part s = Some (ep, r) \<Longrightarrow> length r \<le> length s"
  unfolding parse_exp_part_def
  by (auto split: list.splits if_splits prod.splits dest: digits_of_length)

lemma parse_number_shorter: "parse_number s = Some (n, r) \<Longrightarrow> length r < length s"
  unfolding parse_number_def Let_def
  by (fastforce split: list.splits if_splits prod.splits option.splits
        dest: parse_int_part_shorter parse_frac_part_le parse_exp_part_le)

lemma strip_prefix_shorter: "strip_prefix p s = Some r \<Longrightarrow> p \<noteq> [] \<Longrightarrow> length r < length s"
  unfolding strip_prefix_def
  by (cases s) (auto split: if_splits)

lemma parse_shorter:
  "(\<forall>v r. parse_value s = Some (v, r) \<longrightarrow> length r < length s)"
  "(\<forall>vs r. parse_elements s1 = Some (vs, r) \<longrightarrow> length r < length s1)"
  "(\<forall>ms r. parse_members s2 = Some (ms, r) \<longrightarrow> length r < length s2)"
proof (induction s and s1 and s2 rule: parse_value_parse_elements_parse_members.induct)
  case (1 s)
  show ?case
  proof (intro allI impI)
    fix v r assume a: "parse_value s = Some (v, r)"
    show "length r < length s"
    proof (cases s)
      case Nil
      with a show ?thesis by (simp add: parse_value.simps)
    next
      case (Cons c cs)
      note sk = length_skip_ws [of cs]
      consider (obj) "c = CHR ''{''" | (arr) "c \<noteq> CHR ''{''" "c = CHR ''[''"
        | (str) "c \<noteq> CHR ''{''" "c \<noteq> CHR ''[''" "c = CHR 0x22"
        | (num) "c \<noteq> CHR ''{''" "c \<noteq> CHR ''[''" "c \<noteq> CHR 0x22" "c = CHR ''-'' \<or> is_digit c"
        | (lit) "c \<noteq> CHR ''{''" "c \<noteq> CHR ''[''" "c \<noteq> CHR 0x22" "\<not> (c = CHR ''-'' \<or> is_digit c)"
        by blast
      then show ?thesis
      proof cases
        case obj
        show ?thesis
        proof (cases "skip_ws cs")
          case Nil
          with a Cons obj show ?thesis by (simp add: parse_value.simps)
        next
          case (Cons d r0)
          show ?thesis
          proof (cases "d = CHR ''}''")
            case True
            with a \<open>s = c # cs\<close> obj Cons sk show ?thesis
              by (auto simp: parse_value.simps)
          next
            case False
            from "1.IH"(1) [OF \<open>s = c # cs\<close> obj Cons False]
            have "\<forall>ms r. parse_members (skip_ws cs) = Some (ms, r) \<longrightarrow> length r < length (skip_ws cs)" .
            with a \<open>s = c # cs\<close> obj Cons False sk show ?thesis
              by (auto simp: parse_value.simps split: option.splits)
          qed
        qed
      next
        case arr
        show ?thesis
        proof (cases "skip_ws cs")
          case Nil
          with a Cons arr show ?thesis by (simp add: parse_value.simps)
        next
          case (Cons d r0)
          show ?thesis
          proof (cases "d = CHR '']''")
            case True
            with a \<open>s = c # cs\<close> arr Cons sk show ?thesis
              by (auto simp: parse_value.simps)
          next
            case False
            from "1.IH"(2) [OF \<open>s = c # cs\<close> arr(1) arr(2) Cons False]
            have "\<forall>vs r. parse_elements (skip_ws cs) = Some (vs, r) \<longrightarrow> length r < length (skip_ws cs)" .
            with a \<open>s = c # cs\<close> arr Cons False sk show ?thesis
              by (auto simp: parse_value.simps split: option.splits)
          qed
        qed
      next
        case str
        with a Cons show ?thesis
          by (auto simp: parse_value.simps split: option.splits dest: parse_chars_shorter)
      next
        case num
        with a Cons show ?thesis
          by (auto simp: parse_value.simps split: option.splits dest: parse_number_shorter)
      next
        case lit
        with a Cons show ?thesis
          by (auto simp: parse_value.simps split: option.splits dest!: strip_prefix_shorter)
      qed
    qed
  qed
next
  case (2 s)
  show ?case
  proof (intro allI impI)
    fix vs r assume a: "parse_elements s = Some (vs, r)"
    from a obtain v r1 where v: "parse_value s = Some (v, r1)"
      by (auto simp: parse_elements.simps [of s] split: option.splits)
    with "2.IH"(1) have l1: "length r1 < length s" by blast
    from a v obtain d r' where d: "skip_ws r1 = d # r'"
      by (auto simp: parse_elements.simps [of s] split: list.splits)
    have l2: "length r' < length r1" using d by (rule skip_ws_Cons_shorter)
    show "length r < length s"
    proof (cases "d = CHR '']''")
      case True
      with a v d l1 l2 show ?thesis by (auto simp: parse_elements.simps [of s])
    next
      case False
      with a v d have g: "d = CHR '',''" "length (skip_ws r') < length s"
        by (auto simp: parse_elements.simps [of s] split: if_splits)
      from "2.IH"(2) [OF v refl d False] g
      have "\<forall>vs r. parse_elements (skip_ws r') = Some (vs, r) \<longrightarrow> length r < length (skip_ws r')"
        by simp
      with a v d False g show ?thesis
        by (auto simp: parse_elements.simps [of s] split: option.splits)
    qed
  qed
next
  case (3 s)
  show ?case
  proof (intro allI impI)
    fix ms r assume "parse_members s = Some (ms, r)"
    note a = this [unfolded parse_members.simps [of s]]
    from a obtain q cs where s: "s = q # cs" and q: "q = CHR 0x22"
      by (cases s) (auto split: if_splits)
    from a s q obtain k r0 where k: "parse_chars cs = Some (k, r0)"
      by (auto split: option.splits)
    from a s q k obtain col r1 where c: "skip_ws r0 = col # r1" and col: "col = CHR '':''"
      by (auto split: list.splits if_splits)
    from a s q k c col obtain v r2 where v: "parse_value (skip_ws r1) = Some (v, r2)"
      by (auto split: option.splits)
    from a s q k c col v obtain d r3 where d: "skip_ws r2 = d # r3"
      by (auto split: list.splits)
    have "length r0 < length cs" using k by (rule parse_chars_shorter)
    moreover have "length r1 < length r0" using c by (rule skip_ws_Cons_shorter)
    moreover have "length r2 < length (skip_ws r1)"
      using "3.IH"(1) [OF s q k refl c col] v by blast
    moreover have "length (skip_ws r1) \<le> length r1" by (rule length_skip_ws)
    moreover have "length r3 < length r2" using d by (rule skip_ws_Cons_shorter)
    ultimately have l3: "length r3 < length s" using s by simp
    show "length r < length s"
    proof (cases "d = CHR ''}''")
      case True
      with a s q k c col v d l3 show ?thesis by auto
    next
      case False
      with a s q k c col v d have g: "d = CHR '',''" "length (skip_ws r3) < length s"
        by (auto split: if_splits)
      from "3.IH"(2) [OF s q k refl c col v refl d False] g
      have "\<forall>ms r. parse_members (skip_ws r3) = Some (ms, r) \<longrightarrow> length r < length (skip_ws r3)"
        by simp
      with a s q k c col v d False g show ?thesis
        by (auto split: option.splits)
    qed
  qed
qed

lemma parse_value_shorter: "parse_value s = Some (v, r) \<Longrightarrow> length r < length s"
  using parse_shorter(1) by blast

lemma parse_elements_unguarded:
  "parse_elements s =
     (case parse_value s of
        None \<Rightarrow> None
      | Some (v, r) \<Rightarrow>
          (case skip_ws r of
             [] \<Rightarrow> None
           | d # r' \<Rightarrow>
               if d = CHR '']'' then Some ([v], r')
               else if d = CHR '','' then
                 (case parse_elements (skip_ws r') of
                    None \<Rightarrow> None
                  | Some (vs, r'') \<Rightarrow> Some (v # vs, r''))
               else None))"
proof -
  have "length (skip_ws r') < length s"
    if "parse_value s = Some (v, r)" "skip_ws r = d # r'" for v r d r'
    using parse_value_shorter [OF that(1)] skip_ws_Cons_shorter [OF that(2)] length_skip_ws [of r']
    by simp
  then show ?thesis
    by (subst parse_elements.simps) (auto split: option.splits list.splits)
qed

lemma parse_members_unguarded:
  "parse_members s =
     (case s of
        [] \<Rightarrow> None
      | q # cs \<Rightarrow>
          if q = CHR 0x22 then
            (case parse_chars cs of
               None \<Rightarrow> None
             | Some (k, r) \<Rightarrow>
                 (case skip_ws r of
                    [] \<Rightarrow> None
                  | col # r1 \<Rightarrow>
                      if col = CHR '':'' then
                        (case parse_value (skip_ws r1) of
                           None \<Rightarrow> None
                         | Some (v, r2) \<Rightarrow>
                             (case skip_ws r2 of
                                [] \<Rightarrow> None
                              | d # r3 \<Rightarrow>
                                  if d = CHR ''}'' then Some ([(k, v)], r3)
                                  else if d = CHR '','' then
                                    (case parse_members (skip_ws r3) of
                                       None \<Rightarrow> None
                                     | Some (ms, r4) \<Rightarrow> Some ((k, v) # ms, r4))
                                  else None))
                      else None))
          else None)"
proof -
  have "length (skip_ws r3) < length s"
    if "s = q # cs" "parse_chars cs = Some (k, r)" "skip_ws r = col # r1"
       "parse_value (skip_ws r1) = Some (v, r2)" "skip_ws r2 = d # r3" for q cs k r col r1 v r2 d r3
    using that(1) parse_chars_shorter [OF that(2)] skip_ws_Cons_shorter [OF that(3)]
      parse_value_shorter [OF that(4)] skip_ws_Cons_shorter [OF that(5)]
      length_skip_ws [of r1] length_skip_ws [of r3]
    by simp
  then show ?thesis
    by (subst parse_members.simps) (auto split: option.splits list.splits)
qed

definition JSON_parse :: "string \<Rightarrow> json option" where
  "JSON_parse text =
     (case parse_value (skip_ws text) of
        None \<Rightarrow> None
      | Some (v, r) \<Rightarrow> if skip_ws r = [] then Some v else None)"


section \<open>Classification pipeline (\<open>analyzeWithAI\<close>)\<close>

text \<open>
  \<open>response.match(/\{[\s\S]*\}/)\<close>: the leftmost match starts at the first \<open>{\<close>
  that has a \<open>}\<close> somewhere after it, which is the first \<open>{\<close> of the text or none;
  the greedy star runs to the last \<open>}\<close> of the text.  \<open>None\<close> is the \<open>null\<close> of
  a failed match.
\<close>

definition match_braces :: "string \<Rightarrow> string option" where
  "match_braces s =
     (case dropWhile (\<lambda>c. c \<noteq> CHR ''{'') s of
        [] \<Rightarrow> None
      | c # cs \<Rightarrow>
          if CHR ''}'' \<in> set cs
          then Some (c # rev (dropWhile (\<lambda>c. c \<noteq> CHR ''}'') (rev cs)))
          else None)"

definition analyze_prompt :: "string \<Rightarrow> string" where
  \<open>analyze_prompt content =
     ''Analyze this product feedback and respond in JSON format only:'' @ LF @
     LF @
     ''Feedback: "'' @ content @ ''"'' @ LF @
     LF @
     ''Respond with exactly this JSON structure (no other text):'' @ LF @
     ''{'' @ LF @
     ''  "sentiment": "positive" or "neutral" or "negative",'' @ LF @
     ''  "sentiment_score": number from -1.0 to 1.0,'' @ LF @
     ''  "theme": one of ["performance", "pricing", "documentation", "developer-experience", "reliability", "feature-request", "other"],'' @ LF @
     ''  "urgency": "low" or "medium" or "high" or "critical",'' @ LF @
     ''  "summary": "one sentence summary of the feedback"'' @ LF @
     ''}''\<close>

definition analyze_request :: "string \<Rightarrow> ai_request" where
  "analyze_request content =
     \<lparr> model = ''@cf/meta/llama-3-8b-instruct'',
       system_content = ''You are a product feedback analyzer. Always respond with valid JSON only.'',
       user_content = analyze_prompt content,
       max_tokens = 200 \<rparr>"

text \<open>The object of the inner \<open>catch (parseError)\<close> block.\<close>

definition parse_fallback :: "string \<Rightarrow> json" where
  "parse_fallback response =
     JObject [(''sentiment'', JString ''neutral''),
              (''sentiment_score'', JNumber ''0''),
              (''theme'', JString ''other''),
              (''urgency'', JString ''medium''),
              (''summary'', JString ''Unable to parse AI response''),
              (''raw_response'', JString response)]"

text \<open>The object of the outer \<open>catch (aiError)\<close> block.\<close>

definition ai_unavailable :: "string \<Rightarrow> json" where
  "ai_unavailable msg =
     JObject [(''sentiment'', JString ''neutral''),
              (''sentiment_score'', JNumber ''0''),
              (''theme'', JString ''other''),
              (''urgency'', JString ''medium''),
              (''summary'', JString ''AI analysis unavailable''),
              (''error'', JString msg)]"

text \<open>
  The inner \<open>try\<close>: a failed match throws \<open>Error('No JSON found in response')\<close> and
  \<open>JSON.parse\<close> throws a SyntaxError; both land in the same \<open>catch\<close>.
\<close>

definition extract_analysis :: "string \<Rightarrow> json" where
  "extract_analysis response =
     (case match_braces response of
        None \<Rightarrow> parse_fallback response
      | Some jsonMatch \<Rightarrow>
          (case JSON_parse jsonMatch of
             None \<Rightarrow> parse_fallback response
           | Some analysis \<Rightarrow> analysis))"

definition content_required :: response where
  "content_required = \<lparr> status = 400, body = JObject [(''error'', JString ''Content required'')] \<rparr>"

text \<open>
  \<open>analyzeWithAI\<close>, from the destructured request body on: \<open>content\<close> is \<open>None\<close>
  when the field is absent or null.  The result is the response together with the
  requests that were sent to the capability.
\<close>

definition analyzeWithAI :: "ai \<Rightarrow> string option \<Rightarrow> response \<times> ai_request list" where
  "analyzeWithAI run content =
     (case content of
        None \<Rightarrow> (content_required, [])
      | Some c \<Rightarrow>
          if c = [] then (content_required, [])
          else
            let req = analyze_request c
            in (case run req of
                  AiResolves response \<Rightarrow> (\<lparr> status = 200, body = extract_analysis response \<rparr>, [req])
                | AiThrows msg \<Rightarrow> (\<lparr> status = 200, body = ai_unavailable msg \<rparr>, [req])))"

text \<open>
  Reading a property of a decoded value: of the members of an object with the same
  key the last one counts; any other value has no such property.
\<close>

fun get_field :: "string \<Rightarrow> json \<Rightarrow> json option" where
  "get_field k (JObject ms) = map_of (rev ms) k"
| "get_field k _ = None"









definition classification_result_keys :: "string list" where
  "classification_result_keys = [''sentiment'', ''sentiment_score'', ''theme'', ''urgency'', ''summary'']"

definition malformed_response :: string where
  \<open>malformed_response = ''{"sentiment": positive}''\<close>

section \<open>Summarization pipeline (\<open>summarizeFeedback\<close>)\<close>

definition summarize_prompt :: "string \<Rightarrow> string \<Rightarrow> string" where
  "summarize_prompt theme combinedFeedback =
     ''You are a product manager analyzing customer feedback about '' @ DQ @ theme @ DQ @ ''. '' @ LF @
     LF @
     ''Here are the most recent feedback items:'' @ LF @
     LF @
     combinedFeedback @ LF @
     LF @
     ''Please provide a concise 2-3 sentence summary that:'' @ LF @
     ''1. Identifies the main pain points or requests'' @ LF @
     ''2. Notes any patterns or common themes'' @ LF @
     ''3. Suggests what action might be needed'' @ LF @
     LF @
     ''Keep it actionable and professional.''"

definition summarize_request :: "string \<Rightarrow> string \<Rightarrow> ai_request" where
  "summarize_request theme combinedFeedback =
     \<lparr> model = ''@cf/meta/llama-3-8b-instruct'',
       system_content = ''You are a helpful product management assistant that summarizes customer feedback concisely and actionably.'',
       user_content = summarize_prompt theme combinedFeedback,
       max_tokens = 300 \<rparr>"

definition no_feedback_response :: response where
  "no_feedback_response =
     \<lparr> status = 200, body = JObject [(''summary'', JString ''No feedback to summarize.'')] \<rparr>"

definition summary_unavailable :: "string \<Rightarrow> response" where
  "summary_unavailable msg =
     \<lparr> status = 200,
       body = JObject [(''summary'', JString ''Unable to generate AI summary. Please review the feedback manually.''),
                       (''error'', JString msg)] \<rparr>"

text \<open>
  \<open>summarizeFeedback\<close>, from the destructured request body on: \<open>feedbackTexts\<close> is
  \<open>None\<close> when the field is absent or null.  The result is the response together with
  the list of requests that were sent to the capability, in order.
\<close>

definition summarizeFeedback :: "ai \<Rightarrow> string list option \<Rightarrow> string \<Rightarrow> response \<times> ai_request list" where
  "summarizeFeedback run feedbackTexts theme =
     (case feedbackTexts of
        None \<Rightarrow> (no_feedback_response, [])
      | Some texts \<Rightarrow>
          if length texts = 0 then (no_feedback_response, [])
          else
            let combinedFeedback = join (LF @ ''---'' @ LF) (take 10 texts);
                req = summarize_request theme combinedFeedback
            in (case run req of
                  AiResolves r \<Rightarrow> (\<lparr> status = 200, body = JObject [(''summary'', JString r)] \<rparr>, [req])
                | AiThrows msg \<Rightarrow> (summary_unavailable msg, [req])))"

section \<open>The record store\<close>

text \<open>
  A value of the store: \<open>NULL\<close>, an integer, a real (kept as an exact rational: the
  store computes with doubles, and nothing below depends on the value of a mean
  over a non-empty group) or a text.  A result row maps the column names of the
  \<open>SELECT\<close> list to values, in the order of the list.
\<close>

datatype sql_value = Null | Integer int | Real rat | Text string

type_synonym row = "(string \<times> sql_value) list"

text \<open>
  One row of the table \<open>feedback\<close>, with the columns and the nullability of the
  schema; the column \<open>id\<close> is \<open>id'\<close> here.
\<close>

record feedback =
  id' :: int
  created_at :: "string option"
  channel :: string
  title :: "string option"
  content :: string
  author :: "string option"
  sentiment :: "string option"
  sentiment_score :: "rat option"
  theme :: "string option"
  urgency :: "string option"
  value_score :: "string option"
  analyzed :: "int option"

text \<open>
  The table is the list of its rows in the order a scan of the store yields them;
  that order is the store's own and no query below may rely on it.
\<close>

type_synonym store = "feedback list"

text \<open>\<open>WHERE analyzed = 1\<close>: a \<open>NULL\<close> is not equal to anything.\<close>

definition is_analyzed :: "feedback \<Rightarrow> bool" where
  "is_analyzed r = (analyzed r = Some 1)"

text \<open>\<open>column = 'literal'\<close> and \<open>column != 'literal'\<close> on a nullable text column.\<close>

definition sql_eq :: "string option \<Rightarrow> string \<Rightarrow> bool" where
  "sql_eq v lit = (v = Some lit)"

definition sql_ne :: "string option \<Rightarrow> string \<Rightarrow> bool" where
  "sql_ne v lit = (case v of None \<Rightarrow> False | Some s \<Rightarrow> s \<noteq> lit)"

text \<open>\<open>COUNT(*)\<close>.\<close>

definition count_star :: "'a list \<Rightarrow> sql_value" where
  "count_star rows = Integer (int (length rows))"

text \<open>\<open>SUM(CASE WHEN c THEN 1 ELSE 0 END)\<close>: the sum over no rows is \<open>NULL\<close>.\<close>

definition sum_case :: "('a \<Rightarrow> bool) \<Rightarrow> 'a list \<Rightarrow> sql_value" where
  "sum_case c rows =
     (if rows = [] then Null else Integer (sum_list (map (\<lambda>r. if c r then 1 else 0) rows)))"

text \<open>\<open>AVG(x)\<close>: the mean of the values that are not \<open>NULL\<close>, and \<open>NULL\<close> when there is none.\<close>

definition non_null :: "'a option list \<Rightarrow> 'a list" where
  "non_null xs = concat (map (\<lambda>x. case x of None \<Rightarrow> [] | Some y \<Rightarrow> [y]) xs)"

definition avg :: "rat option list \<Rightarrow> sql_value" where
  "avg xs =
     (let ys = non_null xs
      in if ys = [] then Null else Real (sum_list ys / of_nat (length ys)))"

text \<open>
  \<open>GROUP BY key\<close>: one group for each value of the key, \<open>NULL\<close> being a value like
  the others; a group holds the rows with that key.
\<close>

definition group_by :: "('a \<Rightarrow> 'k) \<Rightarrow> 'a list \<Rightarrow> ('k \<times> 'a list) list" where
  "group_by key rows = map (\<lambda>k. (k, filter (\<lambda>r. key r = k) rows)) (remdups (map key rows))"

text \<open>
  \<open>ORDER BY key DESC\<close>: \<open>NULL\<close> (\<open>None\<close>) is the least value, so it comes last.  The
  order of rows with equal keys is the store's choice; here the order of the input,
  which is arbitrary, decides it.
\<close>

definition order_by_desc :: "('a \<Rightarrow> 'k::linorder) \<Rightarrow> 'a list \<Rightarrow> 'a list" where
  "order_by_desc key rows = rev (sort_key key rows)"

text \<open>\<open>LIMIT n\<close>: a negative \<open>n\<close> is no limit.\<close>

definition sql_limit :: "int \<Rightarrow> 'a list \<Rightarrow> 'a list" where
  "sql_limit n rows = (if n < 0 then rows else take (nat n) rows)"

definition text_or_null :: "string option \<Rightarrow> sql_value" where
  "text_or_null v = (case v of None \<Rightarrow> Null | Some s \<Rightarrow> Text s)"

text \<open>Reading a column of a result row.\<close>

definition column :: "string \<Rightarrow> row \<Rightarrow> sql_value" where
  "column c r = (case map_of r c of None \<Rightarrow> Null | Some v \<Rightarrow> v)"

text \<open>
  The store's order of values, as a sort key: \<open>NULL\<close> first, then the numbers by
  value, then the texts byte by byte.
\<close>

definition sql_key :: "sql_value \<Rightarrow> nat \<times> rat \<times> string" where
  "sql_key v =
     (case v of
        Null \<Rightarrow> (0, 0, [])
      | Integer i \<Rightarrow> (1, of_int i, [])
      | Real q \<Rightarrow> (1, q, [])
      | Text s \<Rightarrow> (2, 0, s))"

section \<open>Aggregation engine\<close>

subsection \<open>\<open>getOverview\<close>\<close>

definition overview_stats :: "store \<Rightarrow> row" where
  "overview_stats db =
     (let rows = filter is_analyzed db
      in [(''total_feedback'', count_star rows),
          (''positive'', sum_case (\<lambda>r. sql_eq (sentiment r) ''positive'') rows),
          (''neutral'', sum_case (\<lambda>r. sql_eq (sentiment r) ''neutral'') rows),
          (''negative'', sum_case (\<lambda>r. sql_eq (sentiment r) ''negative'') rows),
          (''critical_count'', sum_case (\<lambda>r. sql_eq (urgency r) ''critical'') rows),
          (''high_count'', sum_case (\<lambda>r. sql_eq (urgency r) ''high'') rows),
          (''avg_sentiment'', avg (map sentiment_score rows))])"

text \<open>\<open>urgency IN ('critical', 'high')\<close>.\<close>

definition is_urgent :: "feedback \<Rightarrow> bool" where
  "is_urgent r = (sql_eq (urgency r) ''critical'' \<or> sql_eq (urgency r) ''high'')"

text \<open>\<open>WHERE analyzed = 1 AND theme != 'uncategorized'\<close>.\<close>

definition themed :: "store \<Rightarrow> feedback list" where
  "themed db = filter (\<lambda>r. is_analyzed r \<and> sql_ne (theme r) ''uncategorized'') db"

definition top_theme_row :: "string option \<times> feedback list \<Rightarrow> row" where
  "top_theme_row g =
     [(''theme'', text_or_null (fst g)),
      (''count'', count_star (snd g)),
      (''avg_sentiment'', avg (map sentiment_score (snd g))),
      (''urgent_count'', sum_case is_urgent (snd g))]"

text \<open>\<open>GROUP BY theme ORDER BY urgent_count DESC, count DESC LIMIT 5\<close>.\<close>

definition top_themes :: "store \<Rightarrow> row list" where
  "top_themes db =
     sql_limit 5
       (order_by_desc (\<lambda>r. (sql_key (column ''urgent_count'' r), sql_key (column ''count'' r)))
          (map top_theme_row (group_by theme (themed db))))"

definition channel_row :: "string \<times> feedback list \<Rightarrow> row" where
  "channel_row g = [(''channel'', Text (fst g)), (''count'', count_star (snd g))]"

text \<open>\<open>SELECT channel, COUNT(*) as count FROM feedback GROUP BY channel ORDER BY count DESC\<close>.\<close>

definition channel_distribution :: "store \<Rightarrow> row list" where
  "channel_distribution db =
     order_by_desc (\<lambda>r. sql_key (column ''count'' r)) (map channel_row (group_by channel db))"

definition most_discussed_row :: "string option \<times> feedback list \<Rightarrow> row" where
  "most_discussed_row g =
     [(''theme'', text_or_null (fst g)),
      (''count'', count_star (snd g)),
      (''avg_sentiment'', avg (map sentiment_score (snd g))),
      (''positive'', sum_case (\<lambda>r. sql_eq (sentiment r) ''positive'') (snd g)),
      (''negative'', sum_case (\<lambda>r. sql_eq (sentiment r) ''negative'') (snd g)),
      (''urgent_count'', sum_case is_urgent (snd g))]"

text \<open>\<open>... ORDER BY count DESC LIMIT 1\<close> with \<open>.first()\<close>: the first row, or \<open>null\<close>.\<close>

definition most_discussed :: "store \<Rightarrow> row option" where
  "most_discussed db =
     (case sql_limit 1
             (order_by_desc (\<lambda>r. sql_key (column ''count'' r))
                (map most_discussed_row (group_by theme (themed db)))) of
        [] \<Rightarrow> None
      | r # _ \<Rightarrow> Some r)"

text \<open>
  The body of the overview response.  The worker in \<open>feedback-analyser\<close> answers with
  \<open>stats\<close>, \<open>topThemes\<close> and \<open>channels\<close>; the one in \<open>feedback-analyser-2\<close> adds
  \<open>topTheme\<close>.
\<close>

record overview_v1 =
  stats :: row
  topThemes :: "row list"
  channels :: "row list"

record overview = overview_v1 +
  topTheme :: "row option"

definition getOverview_v1 :: "store \<Rightarrow> overview_v1" where
  "getOverview_v1 db =
     \<lparr> stats = overview_stats db, topThemes = top_themes db, channels = channel_distribution db \<rparr>"

definition getOverview :: "store \<Rightarrow> overview" where
  "getOverview db =
     \<lparr> stats = overview_stats db, topThemes = top_themes db, channels = channel_distribution db,
       topTheme = most_discussed db \<rparr>"

subsection \<open>\<open>getSentimentTrend\<close>\<close>

text \<open>
  \<open>DATE(created_at)\<close> is the store's: \<open>date_of\<close> stands for it on a text, giving the
  day as \<open>YYYY-MM-DD\<close> or \<open>None\<close> (\<open>NULL\<close>) for a text it cannot read; the date of
  \<open>NULL\<close> is \<open>NULL\<close>.
\<close>

definition sql_date :: "(string \<Rightarrow> string option) \<Rightarrow> feedback \<Rightarrow> string option" where
  "sql_date date_of r = (case created_at r of None \<Rightarrow> None | Some t \<Rightarrow> date_of t)"

definition trend_row :: "string option \<times> feedback list \<Rightarrow> row" where
  "trend_row g =
     [(''date'', text_or_null (fst g)),
      (''total'', count_star (snd g)),
      (''avg_sentiment'', avg (map sentiment_score (snd g))),
      (''positive'', sum_case (\<lambda>r. sql_eq (sentiment r) ''positive'') (snd g)),
      (''negative'', sum_case (\<lambda>r. sql_eq (sentiment r) ''negative'') (snd g))]"

text \<open>
  \<open>GROUP BY DATE(created_at) ORDER BY date DESC LIMIT 14\<close>, and then
  \<open>trend.results.reverse()\<close>.
\<close>

definition getSentimentTrend :: "(string \<Rightarrow> string option) \<Rightarrow> store \<Rightarrow> row list" where
  "getSentimentTrend date_of db =
     rev (sql_limit 14
            (order_by_desc (\<lambda>r. sql_key (column ''date'' r))
               (map trend_row (group_by (sql_date date_of) (filter is_analyzed db)))))"

subsection \<open>\<open>getThemeDetail\<close>\<close>

text \<open>\<open>WHERE theme = ? AND analyzed = 1\<close> with the theme bound to the parameter.\<close>

definition of_theme :: "string \<Rightarrow> store \<Rightarrow> feedback list" where
  "of_theme th db = filter (\<lambda>r. sql_eq (theme r) th \<and> is_analyzed r) db"

definition theme_trend_row_v1 :: "string option \<times> feedback list \<Rightarrow> row" where
  "theme_trend_row_v1 g =
     [(''date'', text_or_null (fst g)),
      (''count'', count_star (snd g)),
      (''avg_sentiment'', avg (map sentiment_score (snd g)))]"

definition theme_trend_row :: "string option \<times> feedback list \<Rightarrow> row" where
  "theme_trend_row g =
     [(''date'', text_or_null (fst g)),
      (''count'', count_star (snd g)),
      (''avg_sentiment'', avg (map sentiment_score (snd g))),
      (''positive'', sum_case (\<lambda>r. sql_eq (sentiment r) ''positive'') (snd g)),
      (''neutral'', sum_case (\<lambda>r. sql_eq (sentiment r) ''neutral'') (snd g)),
      (''negative'', sum_case (\<lambda>r. sql_eq (sentiment r) ''negative'') (snd g))]"

text \<open>
  The trend query of the theme detail, before the \<open>reverse()\<close>: \<open>feedback-analyser\<close>
  has \<open>LIMIT 7\<close> and three columns, \<open>feedback-analyser-2\<close> has \<open>LIMIT 14\<close> and six.
\<close>

definition theme_trend_v1 :: "(string \<Rightarrow> string option) \<Rightarrow> string \<Rightarrow> store \<Rightarrow> row list" where
  "theme_trend_v1 date_of th db =
     sql_limit 7
       (order_by_desc (\<lambda>r. sql_key (column ''date'' r))
          (map theme_trend_row_v1 (group_by (sql_date date_of) (of_theme th db))))"

definition theme_trend :: "(string \<Rightarrow> string option) \<Rightarrow> string \<Rightarrow> store \<Rightarrow> row list" where
  "theme_trend date_of th db =
     sql_limit 14
       (order_by_desc (\<lambda>r. sql_key (column ''date'' r))
          (map theme_trend_row (group_by (sql_date date_of) (of_theme th db))))"

definition theme_stats_v1 :: "string \<Rightarrow> store \<Rightarrow> row" where
  "theme_stats_v1 th db =
     (let rows = of_theme th db
      in [(''total'', count_star rows),
          (''avg_sentiment'', avg (map sentiment_score rows)),
          (''positive'', sum_case (\<lambda>r. sql_eq (sentiment r) ''positive'') rows),
          (''neutral'', sum_case (\<lambda>r. sql_eq (sentiment r) ''neutral'') rows),
          (''negative'', sum_case (\<lambda>r. sql_eq (sentiment r) ''negative'') rows),
          (''critical'', sum_case (\<lambda>r. sql_eq (urgency r) ''critical'') rows),
          (''high'', sum_case (\<lambda>r. sql_eq (urgency r) ''high'') rows)])"

definition theme_stats :: "string \<Rightarrow> store \<Rightarrow> row" where
  "theme_stats th db =
     (let rows = of_theme th db
      in theme_stats_v1 th db @
         [(''medium'', sum_case (\<lambda>r. sql_eq (urgency r) ''medium'') rows),
          (''low'', sum_case (\<lambda>r. sql_eq (urgency r) ''low'') rows)])"

text \<open>\<open>SELECT channel, COUNT(*) as count ... GROUP BY channel\<close>, in the store's order.\<close>

definition theme_channels :: "string \<Rightarrow> store \<Rightarrow> row list" where
  "theme_channels th db = map channel_row (group_by channel (of_theme th db))"

text \<open>\<open>CASE urgency WHEN 'critical' THEN 1 WHEN 'high' THEN 2 WHEN 'medium' THEN 3 ELSE 4 END\<close>.\<close>

definition urgency_rank :: "feedback \<Rightarrow> nat" where
  "urgency_rank r =
     (if sql_eq (urgency r) ''critical'' then 1
      else if sql_eq (urgency r) ''high'' then 2
      else if sql_eq (urgency r) ''medium'' then 3
      else 4)"

text \<open>
  \<open>ORDER BY CASE ... END, created_at DESC LIMIT 10\<close>: the rank ascending, and among
  equal ranks the newest first (the stable sort by rank keeps the order by date).
\<close>

definition theme_samples :: "string \<Rightarrow> store \<Rightarrow> feedback list" where
  "theme_samples th db = sql_limit 10 (sort_key urgency_rank (order_by_desc created_at (of_theme th db)))"

text \<open>\<open>SELECT content ... ORDER BY created_at DESC LIMIT 10\<close> and \<open>.map(r => r.content)\<close>.\<close>

definition recent_texts :: "string \<Rightarrow> store \<Rightarrow> string list" where
  "recent_texts th db = map content (sql_limit 10 (order_by_desc created_at (of_theme th db)))"

record theme_detail_v1 =
  theme' :: string
  stats' :: row
  channels' :: "row list"
  samples :: "feedback list"
  trend :: "row list"

record theme_detail = theme_detail_v1 +
  recentFeedbackTexts :: "string list"

definition theme_required :: response where
  "theme_required = \<lparr> status = 400, body = JObject [(''error'', JString ''Theme parameter required'')] \<rparr>"

text \<open>
  \<open>getThemeDetail\<close>: the parameter is \<open>url.searchParams.get('theme')\<close>, \<open>None\<close> when
  the query string has none; the answer is the 400 response or the body of the detail.
\<close>

definition getThemeDetail_v1 ::
  "(string \<Rightarrow> string option) \<Rightarrow> store \<Rightarrow> string option \<Rightarrow> response + theme_detail_v1" where
  "getThemeDetail_v1 date_of db param =
     (case param of
        None \<Rightarrow> Inl theme_required
      | Some th \<Rightarrow>
          if th = [] then Inl theme_required
          else Inr \<lparr> theme' = th, stats' = theme_stats_v1 th db, channels' = theme_channels th db,
                     samples = theme_samples th db, trend = rev (theme_trend_v1 date_of th db) \<rparr>)"

definition getThemeDetail ::
  "(string \<Rightarrow> string option) \<Rightarrow> store \<Rightarrow> string option \<Rightarrow> response + theme_detail" where
  "getThemeDetail date_of db param =
     (case param of
        None \<Rightarrow> Inl theme_required
      | Some th \<Rightarrow>
          if th = [] then Inl theme_required
          else Inr \<lparr> theme' = th, stats' = theme_stats th db, channels' = theme_channels th db,
                     samples = theme_samples th db, trend = rev (theme_trend date_of th db),
                     recentFeedbackTexts = recent_texts th db \<rparr>)"


section \<open>Example stores\<close>

definition item :: "int \<Rightarrow> string \<Rightarrow> string \<Rightarrow> string \<Rightarrow> string \<Rightarrow> string \<Rightarrow> feedback" where
  "item i ts ch sent th urg =
     \<lparr> id' = i, created_at = Some ts, channel = ch, title = None, content = ''feedback'',
       author = None, sentiment = Some sent, sentiment_score = Some 0, theme = Some th,
       urgency = Some urg, value_score = Some ''medium'', analyzed = Some 1 \<rparr>"

text \<open>A row as the schema's defaults leave it: not analyzed yet.\<close>

definition pending_item :: "int \<Rightarrow> string \<Rightarrow> string \<Rightarrow> feedback" where
  "pending_item i ts ch =
     \<lparr> id' = i, created_at = Some ts, channel = ch, title = None, content = ''feedback'',
       author = None, sentiment = Some ''pending'', sentiment_score = Some 0,
       theme = Some ''uncategorized'', urgency = Some ''low'', value_score = Some ''medium'',
       analyzed = Some 0 \<rparr>"

definition unanalyzed_store :: store where
  "unanalyzed_store = [pending_item 1 ''2024-01-15 10:00:00'' ''github'']"

definition small_store :: store where
  "small_store =
     [item 1 ''2024-01-15 10:00:00'' ''github'' ''positive'' ''pricing'' ''low'',
      pending_item 2 ''2024-01-15 11:00:00'' ''discord'',
      item 3 ''2024-01-16 09:30:00'' ''support'' ''negative'' ''performance'' ''critical'',
      item 4 ''2024-01-16 12:00:00'' ''forum'' ''neutral'' ''performance'' ''medium'']"




text \<open>
  A trend is in strictly ascending date order when each bucket's date comes before
  the date of every later bucket, in the store's order of values.
\<close>

definition strictly_ascending_dates :: "row list \<Rightarrow> bool" where
  "strictly_ascending_dates rows =
     sorted_wrt (\<lambda>a b. sql_key (column ''date'' a) < sql_key (column ''date'' b)) rows"

text \<open>
  \<open>DATE\<close> on the timestamps that \<open>datetime('now')\<close> writes, \<open>YYYY-MM-DD HH:MM:SS\<close> of
  a day of the calendar: the first ten characters.  It reads the shape only and is
  used on such timestamps only.
\<close>

definition iso_day :: "string \<Rightarrow> string option" where
  "iso_day t =
     (if 10 \<le> length t \<and>
         list_all is_digit (take 4 t) \<and> t ! 4 = CHR ''-'' \<and>
         list_all is_digit (take 2 (drop 5 t)) \<and> t ! 7 = CHR ''-'' \<and>
         list_all is_digit (take 2 (drop 8 t)) \<and>
         (length t = 10 \<or> t ! 10 = CHR '' '' \<or> t ! 10 = CHR ''T'')
      then Some (take 10 t) else None)"

definition eight_day_store :: store where
  "eight_day_store =
     [item 1 ''2024-01-10 10:00:00'' ''github'' ''negative'' ''pricing'' ''high'',
      item 2 ''2024-01-11 10:00:00'' ''github'' ''neutral'' ''pricing'' ''low'',
      item 3 ''2024-01-12 10:00:00'' ''forum'' ''neutral'' ''pricing'' ''medium'',
      item 4 ''2024-01-13 10:00:00'' ''forum'' ''positive'' ''pricing'' ''low'',
      item 5 ''2024-01-17 10:00:00'' ''support'' ''positive'' ''pricing'' ''low'',
      item 6 ''2024-01-16 10:00:00'' ''support'' ''negative'' ''pricing'' ''critical'',
      item 7 ''2024-01-15 10:00:00'' ''discord'' ''negative'' ''pricing'' ''high'',
      item 8 ''2024-01-14 10:00:00'' ''discord'' ''neutral'' ''pricing'' ''low'',
      item 9 ''2024-01-14 18:00:00'' ''discord'' ''neutral'' ''pricing'' ''low'',
      pending_item 10 ''2024-01-18 12:00:00'' ''twitter'']"


definition fifteen_day_store :: store where
  "fifteen_day_store =
     [item 1 ''2024-01-08 10:00:00'' ''github'' ''negative'' ''pricing'' ''high'',
      item 2 ''2024-01-03 10:00:00'' ''github'' ''neutral'' ''pricing'' ''low'',
      item 3 ''2024-01-12 10:00:00'' ''forum'' ''neutral'' ''reliability'' ''medium'',
      item 4 ''2024-01-15 10:00:00'' ''forum'' ''positive'' ''pricing'' ''low'',
      item 5 ''2024-01-01 10:00:00'' ''support'' ''positive'' ''pricing'' ''low'',
      item 6 ''2024-01-06 10:00:00'' ''support'' ''negative'' ''pricing'' ''critical'',
      item 7 ''2024-01-10 10:00:00'' ''discord'' ''negative'' ''other'' ''high'',
      item 8 ''2024-01-14 10:00:00'' ''discord'' ''neutral'' ''pricing'' ''low'',
      item 9 ''2024-01-02 18:00:00'' ''discord'' ''neutral'' ''pricing'' ''low'',
      item 10 ''2024-01-05 10:00:00'' ''github'' ''negative'' ''pricing'' ''high'',
      item 11 ''2024-01-13 10:00:00'' ''github'' ''neutral'' ''performance'' ''low'',
      item 12 ''2024-01-04 10:00:00'' ''forum'' ''neutral'' ''pricing'' ''medium'',
      item 13 ''2024-01-09 10:00:00'' ''forum'' ''positive'' ''pricing'' ''low'',
      item 14 ''2024-01-07 10:00:00'' ''support'' ''positive'' ''pricing'' ''low'',
      item 15 ''2024-01-11 10:00:00'' ''support'' ''negative'' ''pricing'' ''critical'',
      item 16 ''2024-01-11 21:00:00'' ''twitter'' ''positive'' ''pricing'' ''low'',
      pending_item 17 ''2024-01-16 12:00:00'' ''twitter'']"

text \<open>The date and the counts of a bucket of the Sentiment Trend.\<close>

definition bucket_counts :: "row \<Rightarrow> sql_value \<times> sql_value \<times> sql_value \<times> sql_value" where
  "bucket_counts r = (column ''date'' r, column ''total'' r, column ''positive'' r, column ''negative'' r)"

section \<open>Query filter builder and listing (\<open>getFeedback\<close>)\<close>





text \<open>\<open>url.searchParams.get\<close>: the value of a parameter of the query string, or \<open>null\<close>.\<close>

type_synonym search_params = "string \<Rightarrow> string option"














definition positive_first :: search_params where
  "positive_first = [''sentiment'' \<mapsto> ''positive'', ''theme'' \<mapsto> ''all'', ''limit'' \<mapsto> ''1'']"







section \<open>Properties of grouping and ordering\<close>

lemma group_by_member:
  "(k, g) \<in> set (group_by key rows) \<Longrightarrow>
     g = filter (\<lambda>r. key r = k) rows \<and> g \<noteq> [] \<and> k \<in> key ` set rows"
  by (auto simp: group_by_def filter_empty_conv)

lemma sum_list_case_count:
  "(\<Sum>r\<leftarrow>rows. if c r then 1 else 0) = int (length (filter c rows))"
  by (induction rows) simp_all




section \<open>Properties of the day buckets\<close>

lemma sql_key_text_or_null_less:
  "(sql_key (text_or_null a) < sql_key (text_or_null b)) = (a < b)"
  by (cases a; cases b) (auto simp: sql_key_def text_or_null_def)

lemma sql_key_text_or_null_inj:
  "sql_key (text_or_null a) = sql_key (text_or_null b) \<Longrightarrow> a = b"
  by (cases a; cases b) (auto simp: sql_key_def text_or_null_def)

lemma sorted_buckets:
  fixes mk :: "string option \<times> feedback list \<Rightarrow> row"
    and D :: "feedback \<Rightarrow> string option" and B :: "feedback list"
  assumes mk: "\<And>g. column ''date'' (mk g) = text_or_null (fst g)"
  defines "S \<equiv> sort_key (\<lambda>r. sql_key (column ''date'' r)) (map mk (group_by D B))"
  shows "sorted (map (\<lambda>r. sql_key (column ''date'' r)) S)"
    and "distinct (map (\<lambda>r. sql_key (column ''date'' r)) S)"
    and "set (map (\<lambda>r. sql_key (column ''date'' r)) S) = (\<lambda>d. sql_key (text_or_null d)) ` D ` set B"
    and "\<forall>r \<in> set S. \<exists>d. r = mk (d, filter (\<lambda>x. D x = d) B)"
proof -
  let ?K = "\<lambda>r. sql_key (column ''date'' r)"
  show "sorted (map ?K S)" unfolding S_def by (rule sorted_sort_key)
  have keys: "map ?K (map mk (group_by D B)) = map (\<lambda>d. sql_key (text_or_null d)) (remdups (map D B))"
    by (simp add: group_by_def mk comp_def)
  have "distinct (map ?K (map mk (group_by D B)))"
    unfolding keys
    by (rule distinct_map [THEN iffD2]) (auto intro: inj_onI dest: sql_key_text_or_null_inj)
  then have "distinct (map mk (group_by D B)) \<and> inj_on ?K (set (map mk (group_by D B)))"
    by (rule distinct_map [THEN iffD1])
  then have "distinct S \<and> inj_on ?K (set S)"
    unfolding S_def by (simp only: distinct_sort set_sort)
  then show "distinct (map ?K S)"
    by (rule distinct_map [THEN iffD2])
  have "set (map ?K S) = set (map ?K (map mk (group_by D B)))"
    unfolding S_def by (simp only: set_map set_sort)
  also have "\<dots> = (\<lambda>d. sql_key (text_or_null d)) ` D ` set B"
    unfolding keys by (simp only: set_map set_remdups)
  finally show "set (map ?K S) = (\<lambda>d. sql_key (text_or_null d)) ` D ` set B" .
  have "set S = mk ` set (group_by D B)"
    unfolding S_def by (simp only: set_sort set_map)
  then show "\<forall>r \<in> set S. \<exists>d. r = mk (d, filter (\<lambda>x. D x = d) B)"
    using group_by_member [of _ _ D B] by fastforce
qed

lemma recent_buckets:
  fixes mk :: "string option \<times> feedback list \<Rightarrow> row"
    and D :: "feedback \<Rightarrow> string option" and A :: "feedback list" and m :: nat
  assumes mk: "\<And>g. column ''date'' (mk g) = text_or_null (fst g)"
  defines "T \<equiv> rev (sql_limit (int m) (order_by_desc (\<lambda>r. sql_key (column ''date'' r))
                      (map mk (group_by D A))))"
  shows "length T \<le> m"
    and "strictly_ascending_dates T"
    and "\<forall>r \<in> set T. \<exists>d \<in> D ` set A. r = mk (d, filter (\<lambda>x. D x = d) A)"
    and "\<forall>d \<in> D ` set A.
           (\<exists>r \<in> set T. column ''date'' r = text_or_null d) \<or>
           (length T = m \<and> (\<forall>r \<in> set T. sql_key (text_or_null d) < sql_key (column ''date'' r)))"
proof -
  let ?K = "\<lambda>r. sql_key (column ''date'' r)"
  let ?R = "map mk (group_by D A)"
  let ?S = "sort_key ?K ?R"
  let ?k = "length ?S - m"
  have T: "T = drop ?k ?S"
    by (simp add: T_def sql_limit_def order_by_desc_def rev_take)
  show "length T \<le> m"
    by (simp add: T)
  from sorted_buckets(1,2) [of mk D A, OF mk] have "sorted_wrt (<) (map ?K ?S)"
    by (simp add: strict_sorted_iff)
  then have asc: "sorted_wrt (\<lambda>a b. ?K a < ?K b) ?S"
    by (simp add: sorted_wrt_map)
  then show "strictly_ascending_dates T"
    by (simp add: T strictly_ascending_dates_def sorted_wrt_drop)
  have setS: "set ?S = mk ` set (group_by D A)"
    by simp
  show "\<forall>r \<in> set T. \<exists>d \<in> D ` set A. r = mk (d, filter (\<lambda>x. D x = d) A)"
  proof
    fix r assume "r \<in> set T"
    then have "r \<in> set ?S" unfolding T by (rule in_set_dropD)
    with setS obtain d g where "r = mk (d, g)" "(d, g) \<in> set (group_by D A)"
      by auto
    with group_by_member [of d g D A]
    show "\<exists>d \<in> D ` set A. r = mk (d, filter (\<lambda>x. D x = d) A)"
      by blast
  qed
  show "\<forall>d \<in> D ` set A.
           (\<exists>r \<in> set T. column ''date'' r = text_or_null d) \<or>
           (length T = m \<and> (\<forall>r \<in> set T. sql_key (text_or_null d) < sql_key (column ''date'' r)))"
  proof
    fix d assume d: "d \<in> D ` set A"
    let ?r = "mk (d, filter (\<lambda>x. D x = d) A)"
    from d have "(d, filter (\<lambda>x. D x = d) A) \<in> set (group_by D A)"
      by (auto simp: group_by_def)
    then have "?r \<in> set ?S" by simp
    then have "?r \<in> set (take ?k ?S) \<union> set (drop ?k ?S)"
      by (simp only: set_append [symmetric] append_take_drop_id)
    then show "(\<exists>r \<in> set T. column ''date'' r = text_or_null d) \<or>
           (length T = m \<and> (\<forall>r \<in> set T. sql_key (text_or_null d) < sql_key (column ''date'' r)))"
    proof
      assume old: "?r \<in> set (take ?k ?S)"
      then have "take ?k ?S \<noteq> []" by auto
      then have "m < length ?S" by (cases "m < length ?S") simp_all
      then have len: "length T = m" by (simp add: T)
      from asc have "sorted_wrt (\<lambda>a b. ?K a < ?K b) (take ?k ?S @ drop ?k ?S)"
        by simp
      then have "\<forall>x \<in> set (take ?k ?S). \<forall>y \<in> set (drop ?k ?S). ?K x < ?K y"
        by (simp only: sorted_wrt_append) blast
      with old have "\<forall>y \<in> set T. ?K ?r < ?K y"
        unfolding T by blast
      with len show ?thesis by (simp add: mk)
    next
      assume "?r \<in> set (drop ?k ?S)"
      then have "?r \<in> set T" by (simp add: T)
      moreover have "column ''date'' ?r = text_or_null d" by (simp add: mk)
      ultimately show ?thesis by blast
    qed
  qed
qed

lemma trend_row_date: "column ''date'' (trend_row g) = text_or_null (fst g)"
  by (simp add: trend_row_def column_def)

lemma theme_trend_row_date: "column ''date'' (theme_trend_row g) = text_or_null (fst g)"
  by (simp add: theme_trend_row_def column_def)

lemma theme_trend_row_v1_date: "column ''date'' (theme_trend_row_v1 g) = text_or_null (fst g)"
  by (simp add: theme_trend_row_v1_def column_def)

lemma theme_trend_buckets:
  "length (rev (theme_trend date_of th db)) \<le> 14 \<and>
          strictly_ascending_dates (rev (theme_trend date_of th db)) \<and>
          (\<forall>r \<in> set (rev (theme_trend date_of th db)).
             \<exists>day \<in> sql_date date_of ` set (of_theme th db).
               r = theme_trend_row (day, filter (\<lambda>x. sql_date date_of x = day) (of_theme th db))) \<and>
          (\<forall>day \<in> sql_date date_of ` set (of_theme th db).
             (\<exists>r \<in> set (rev (theme_trend date_of th db)). column ''date'' r = text_or_null day) \<or>
             (length (rev (theme_trend date_of th db)) = 14 \<and>
              (\<forall>r \<in> set (rev (theme_trend date_of th db)). sql_key (text_or_null day) < sql_key (column ''date'' r))))"
  using recent_buckets [where mk = theme_trend_row and m = 14 and D = "sql_date date_of"
      and A = "of_theme th db", OF theme_trend_row_date]
  unfolding theme_trend_def by simp

lemma theme_trend_v1_buckets:
  "length (rev (theme_trend_v1 date_of th db)) \<le> 7 \<and>
          strictly_ascending_dates (rev (theme_trend_v1 date_of th db)) \<and>
          (\<forall>r \<in> set (rev (theme_trend_v1 date_of th db)).
             \<exists>day \<in> sql_date date_of ` set (of_theme th db).
               r = theme_trend_row_v1 (day, filter (\<lambda>x. sql_date date_of x = day) (of_theme th db))) \<and>
          (\<forall>day \<in> sql_date date_of ` set (of_theme th db).
             (\<exists>r \<in> set (rev (theme_trend_v1 date_of th db)). column ''date'' r = text_or_null day) \<or>
             (length (rev (theme_trend_v1 date_of th db)) = 7 \<and>
              (\<forall>r \<in> set (rev (theme_trend_v1 date_of th db)). sql_key (text_or_null day) < sql_key (column ''date'' r))))"
  using recent_buckets [where mk = theme_trend_row_v1 and m = 7 and D = "sql_date date_of"
      and A = "of_theme th db", OF theme_trend_row_v1_date]
  unfolding theme_trend_v1_def by simp

lemma sum_case_mset: "mset g = mset g' \<Longrightarrow> sum_case c g = sum_case c g'"
proof -
  assume m: "mset g = mset g'"
  then have "mset (filter c g) = mset (filter c g')" by simp
  then have "length (filter c g) = length (filter c g')" by (rule mset_eq_length)
  moreover from m have "(g = []) = (g' = [])" by (metis mset_zero_iff)
  ultimately show ?thesis
    by (simp add: sum_case_def sum_list_case_count)
qed

lemma bucket_counts_mset:
  "mset g = mset g' \<Longrightarrow> bucket_counts (trend_row (d, g)) = bucket_counts (trend_row (d, g'))"
  using sum_case_mset [of g g'] mset_eq_length [of g g']
  by (simp add: bucket_counts_def trend_row_def column_def count_star_def)

lemma map_eq_iff_list_all2:
  "(map f xs = map g ys) = list_all2 (\<lambda>x y. f x = g y) xs ys"
proof -
  have "(map f xs = map g ys) = list_all2 (=) (map f xs) (map g ys)"
    by (simp add: list.rel_eq)
  also have "\<dots> = list_all2 (\<lambda>x y. f x = g y) xs ys"
    by (simp add: list.rel_map)
  finally show ?thesis .
qed

lemma sorted_buckets_scan_order:
  fixes mk :: "string option \<times> feedback list \<Rightarrow> row"
    and D :: "feedback \<Rightarrow> string option" and A A' :: "feedback list" and n :: int
    and f :: "row \<Rightarrow> 'b"
  assumes mk: "\<And>g. column ''date'' (mk g) = text_or_null (fst g)"
    and f: "\<And>d g g'. mset g = mset g' \<Longrightarrow> f (mk (d, g)) = f (mk (d, g'))"
    and A: "mset A = mset A'"
  shows "map f (sort_key (\<lambda>r. sql_key (column ''date'' r)) (map mk (group_by D A))) =
         map f (sort_key (\<lambda>r. sql_key (column ''date'' r)) (map mk (group_by D A')))"
proof -
  let ?K = "\<lambda>r. sql_key (column ''date'' r)"
  let ?S = "sort_key ?K (map mk (group_by D A))"
  let ?S' = "sort_key ?K (map mk (group_by D A'))"
  note a = sorted_buckets [of mk D A, OF mk]
  note a' = sorted_buckets [of mk D A', OF mk]
  from A have "set A = set A'" by (rule mset_eq_setD)
  with a(3) a'(3) have "set (map ?K ?S) = set (map ?K ?S')" by (simp only:)
  with a(1,2) a'(1,2) have "map ?K ?S = map ?K ?S'"
    by (rule sorted_distinct_set_unique)
  then have "list_all2 (\<lambda>r r'. ?K r = ?K r') ?S ?S'"
    by (simp only: map_eq_iff_list_all2)
  then have "list_all2 (\<lambda>r r'. f r = f r') ?S ?S'"
  proof (rule list.rel_mono_strong)
    fix r r' assume r: "r \<in> set ?S" and r': "r' \<in> set ?S'" and k: "?K r = ?K r'"
    from r a(4) obtain d where d: "r = mk (d, filter (\<lambda>x. D x = d) A)" by blast
    from r' a'(4) obtain d' where d': "r' = mk (d', filter (\<lambda>x. D x = d') A')" by blast
    from k have "sql_key (text_or_null d) = sql_key (text_or_null d')"
      unfolding d d' mk by simp
    then have e: "d' = d" by (rule sql_key_text_or_null_inj [symmetric])
    from A have "mset (filter (\<lambda>x. D x = d) A) = mset (filter (\<lambda>x. D x = d) A')"
      by simp
    then have "f (mk (d, filter (\<lambda>x. D x = d) A)) = f (mk (d, filter (\<lambda>x. D x = d) A'))"
      by (rule f)
    then show "f r = f r'" unfolding d d' e .
  qed
  then show "map f ?S = map f ?S'"
    by (simp only: map_eq_iff_list_all2)
qed

lemma buckets_scan_order:
  fixes mk :: "string option \<times> feedback list \<Rightarrow> row"
    and D :: "feedback \<Rightarrow> string option" and A A' :: "feedback list" and n :: int
    and f :: "row \<Rightarrow> 'b"
  assumes mk: "\<And>g. column ''date'' (mk g) = text_or_null (fst g)"
    and f: "\<And>d g g'. mset g = mset g' \<Longrightarrow> f (mk (d, g)) = f (mk (d, g'))"
    and A: "mset A = mset A'"
  shows "map f (rev (sql_limit n (order_by_desc (\<lambda>r. sql_key (column ''date'' r)) (map mk (group_by D A))))) =
         map f (rev (sql_limit n (order_by_desc (\<lambda>r. sql_key (column ''date'' r)) (map mk (group_by D A')))))"
proof -
  let ?K = "\<lambda>r. sql_key (column ''date'' r)"
  let ?S = "sort_key ?K (map mk (group_by D A))"
  let ?S' = "sort_key ?K (map mk (group_by D A'))"
  have e: "map f ?S = map f ?S'"
    using mk f A by (rule sorted_buckets_scan_order)
  have "map f (rev (sql_limit n (rev xs))) = rev (sql_limit n (rev (map f xs)))" for xs :: "row list"
    by (simp add: sql_limit_def rev_map take_map)
  then show ?thesis
    unfolding order_by_desc_def by (simp only: e)
qed

lemma sentiment_trend_scan_order:
  "mset db = mset db' \<Longrightarrow>
     map bucket_counts (getSentimentTrend date_of db) = map bucket_counts (getSentimentTrend date_of db')"
proof -
  assume "mset db = mset db'"
  then have "mset (filter is_analyzed db) = mset (filter is_analyzed db')"
    by simp
  with trend_row_date bucket_counts_mset show ?thesis
    unfolding getSentimentTrend_def
    by (rule buckets_scan_order [where mk = trend_row and f = bucket_counts])
qed

section \<open>Properties of the query builder and the store's reading of it\<close>























section \<open>Properties of the classification pipeline\<close>



lemma parse_fallback_fields:
  "get_field ''sentiment'' (parse_fallback r) = Some (JString ''neutral'')"
  "get_field ''sentiment_score'' (parse_fallback r) = Some (JNumber ''0'')"
  "get_field ''theme'' (parse_fallback r) = Some (JString ''other'')"
  "get_field ''urgency'' (parse_fallback r) = Some (JString ''medium'')"
  "get_field ''summary'' (parse_fallback r) = Some (JString ''Unable to parse AI response'')"
  "get_field ''raw_response'' (parse_fallback r) = Some (JString r)"
  by (simp_all add: parse_fallback_def)

lemma ai_unavailable_fields:
  "get_field ''sentiment'' (ai_unavailable m) = Some (JString ''neutral'')"
  "get_field ''sentiment_score'' (ai_unavailable m) = Some (JNumber ''0'')"
  "get_field ''theme'' (ai_unavailable m) = Some (JString ''other'')"
  "get_field ''urgency'' (ai_unavailable m) = Some (JString ''medium'')"
  "get_field ''summary'' (ai_unavailable m) = Some (JString ''AI analysis unavailable'')"
  "get_field ''error'' (ai_unavailable m) = Some (JString m)"
  by (simp_all add: ai_unavailable_def)





text \<open>
  C4.  For every non-empty content: when the capability throws, when the response
  holds no \<open>{...}\<close> part, and when that part does not decode, \<open>analyzeWithAI\<close> answers
  with status 200 and the fixed record sentiment neutral, sentiment_score 0, theme
  other, urgency medium and a fixed summary ("AI analysis unavailable" for a failed call,
  "Unable to parse AI response" otherwise), after exactly one request to the capability.
  No failure of the classifier reaches the caller.
\<close>

theorem classify_fallback_on_failure:
  "c \<noteq> [] \<longrightarrow>
     (run (analyze_request c) = AiThrows msg \<longrightarrow>
        analyzeWithAI run (Some c) =
          (\<lparr> status = 200, body = ai_unavailable msg \<rparr>, [analyze_request c])) \<and>
     (run (analyze_request c) = AiResolves r \<and> match_braces r = None \<longrightarrow>
        analyzeWithAI run (Some c) =
          (\<lparr> status = 200, body = parse_fallback r \<rparr>, [analyze_request c])) \<and>
     (run (analyze_request c) = AiResolves r \<and> match_braces r = Some m \<and> JSON_parse m = None \<longrightarrow>
        analyzeWithAI run (Some c) =
          (\<lparr> status = 200, body = parse_fallback r \<rparr>, [analyze_request c])) \<and>
     get_field ''sentiment'' (parse_fallback r) = Some (JString ''neutral'') \<and>
     get_field ''sentiment_score'' (parse_fallback r) = Some (JNumber ''0'') \<and>
     get_field ''theme'' (parse_fallback r) = Some (JString ''other'') \<and>
     get_field ''urgency'' (parse_fallback r) = Some (JString ''medium'') \<and>
     get_field ''summary'' (parse_fallback r) = Some (JString ''Unable to parse AI response'') \<and>
     get_field ''sentiment'' (ai_unavailable msg) = Some (JString ''neutral'') \<and>
     get_field ''sentiment_score'' (ai_unavailable msg) = Some (JNumber ''0'') \<and>
     get_field ''theme'' (ai_unavailable msg) = Some (JString ''other'') \<and>
     get_field ''urgency'' (ai_unavailable msg) = Some (JString ''medium'') \<and>
     get_field ''summary'' (ai_unavailable msg) = Some (JString ''AI analysis unavailable'')"
  by (simp add: analyzeWithAI_def extract_analysis_def parse_fallback_fields ai_unavailable_fields)

theorem classify_fallback_on_failure_witness:
  "''The dashboard is slow'' \<noteq> [] \<and>
   (\<lambda>_. AiThrows ''quota exceeded'') (analyze_request ''The dashboard is slow'') = AiThrows ''quota exceeded'' \<and>
   analyzeWithAI (\<lambda>_. AiThrows ''quota exceeded'') (Some ''The dashboard is slow'') =
     (\<lparr> status = 200, body = ai_unavailable ''quota exceeded'' \<rparr>, [analyze_request ''The dashboard is slow'']) \<and>
   match_braces ''not json at all'' = None \<and>
   analyzeWithAI (\<lambda>_. AiResolves ''not json at all'') (Some ''The dashboard is slow'') =
     (\<lparr> status = 200, body = parse_fallback ''not json at all'' \<rparr>, [analyze_request ''The dashboard is slow'']) \<and>
   match_braces malformed_response = Some malformed_response \<and>
   JSON_parse malformed_response = None \<and>
   analyzeWithAI (\<lambda>_. AiResolves malformed_response) (Some ''The dashboard is slow'') =
     (\<lparr> status = 200, body = parse_fallback malformed_response \<rparr>, [analyze_request ''The dashboard is slow''])"
proof -
  have 1: "match_braces ''not json at all'' = None"
    by code_simp
  have 2: "match_braces malformed_response = Some malformed_response"
    by code_simp
  have 3: "JSON_parse malformed_response = None"
    by code_simp
  show ?thesis
    using 1 2 3
      classify_fallback_on_failure [of "''The dashboard is slow''" "\<lambda>_. AiThrows ''quota exceeded''"
        "''quota exceeded''" "''not json at all''" "[]"]
      classify_fallback_on_failure [of "''The dashboard is slow''" "\<lambda>_. AiResolves ''not json at all''"
        "[]" "''not json at all''" "[]"]
      classify_fallback_on_failure [of "''The dashboard is slow''" "\<lambda>_. AiResolves malformed_response"
        "[]" "malformed_response" "malformed_response"]
    by simp
qed

text \<open>
  C10.  On every fallback path the returned record has a field outside the documented
  keys sentiment, sentiment_score, theme, urgency, summary: \<open>raw_response\<close> with the
  whole response text of the classifier after a failed extraction or decoding, and
  \<open>error\<close> with the message of the error after a failed call.
\<close>

theorem classify_fallback_exposes_extra_fields:
  "c \<noteq> [] \<longrightarrow>
     (run (analyze_request c) = AiResolves r \<and>
      (match_braces r = None \<or> (\<exists>m. match_braces r = Some m \<and> JSON_parse m = None)) \<longrightarrow>
        get_field ''raw_response'' (body (fst (analyzeWithAI run (Some c)))) = Some (JString r)) \<and>
     (run (analyze_request c) = AiThrows msg \<longrightarrow>
        get_field ''error'' (body (fst (analyzeWithAI run (Some c)))) = Some (JString msg)) \<and>
     ''raw_response'' \<notin> set classification_result_keys \<and>
     ''error'' \<notin> set classification_result_keys"
  by (auto simp: analyzeWithAI_def extract_analysis_def parse_fallback_fields ai_unavailable_fields
      classification_result_keys_def)

theorem classify_fallback_exposes_extra_fields_witness:
  "''The dashboard is slow'' \<noteq> [] \<and>
   match_braces ''not json at all'' = None \<and>
   get_field ''raw_response''
     (body (fst (analyzeWithAI (\<lambda>_. AiResolves ''not json at all'') (Some ''The dashboard is slow'')))) =
     Some (JString ''not json at all'') \<and>
   match_braces malformed_response = Some malformed_response \<and>
   JSON_parse malformed_response = None \<and>
   get_field ''raw_response''
     (body (fst (analyzeWithAI (\<lambda>_. AiResolves malformed_response) (Some ''The dashboard is slow'')))) =
     Some (JString malformed_response) \<and>
   get_field ''error''
     (body (fst (analyzeWithAI (\<lambda>_. AiThrows ''quota exceeded'') (Some ''The dashboard is slow'')))) =
     Some (JString ''quota exceeded'')"
proof -
  have 1: "match_braces ''not json at all'' = None"
    by code_simp
  have 2: "match_braces malformed_response = Some malformed_response"
    by code_simp
  have 3: "JSON_parse malformed_response = None"
    by code_simp
  show ?thesis
    using 1 2 3
      classify_fallback_exposes_extra_fields [of "''The dashboard is slow''"
        "\<lambda>_. AiThrows ''quota exceeded''" "[]" "''quota exceeded''"]
      classify_fallback_exposes_extra_fields [of "''The dashboard is slow''"
        "\<lambda>_. AiResolves ''not json at all''" "''not json at all''" "[]"]
      classify_fallback_exposes_extra_fields [of "''The dashboard is slow''"
        "\<lambda>_. AiResolves malformed_response" "malformed_response" "[]"]
    by simp
qed

section \<open>Properties of the summarization pipeline\<close>

text \<open>
  C9.  For every sequence of texts and every theme label: only the first ten texts
  reach the capability (the run on the whole sequence is the run on its first ten
  texts, and the one request sent carries exactly their join); an absent or empty
  sequence gives the fixed "No feedback to summarize." response and no request is sent;
  when the capability throws, the fixed unavailable-summary response is returned
  with status 200 instead of the error.
\<close>

theorem summarize_first_ten_and_fallbacks:
  "summarizeFeedback run None label = (no_feedback_response, []) \<and>
   summarizeFeedback run (Some []) label = (no_feedback_response, []) \<and>
   summarizeFeedback run (Some texts) label = summarizeFeedback run (Some (take 10 texts)) label \<and>
   (texts \<noteq> [] \<longrightarrow>
      snd (summarizeFeedback run (Some texts) label) =
        [summarize_request label (join (LF @ ''---'' @ LF) (take 10 texts))]) \<and>
   (texts \<noteq> [] \<longrightarrow>
      run (summarize_request label (join (LF @ ''---'' @ LF) (take 10 texts))) = AiThrows msg \<longrightarrow>
      fst (summarizeFeedback run (Some texts) label) = summary_unavailable msg)"
  by (auto simp: summarizeFeedback_def Let_def split: ai_outcome.splits)

theorem summarize_first_ten_and_fallbacks_witness:
  "[''slow'', ''down''] \<noteq> [] \<and>
   (\<lambda>_. AiThrows ''quota'')
      (summarize_request ''performance'' (join (LF @ ''---'' @ LF) (take 10 [''slow'', ''down'']))) =
     AiThrows ''quota'' \<and>
   snd (summarizeFeedback (\<lambda>_. AiThrows ''quota'') (Some [''slow'', ''down'']) ''performance'') =
     [summarize_request ''performance'' (join (LF @ ''---'' @ LF) (take 10 [''slow'', ''down'']))] \<and>
   fst (summarizeFeedback (\<lambda>_. AiThrows ''quota'') (Some [''slow'', ''down'']) ''performance'') =
     summary_unavailable ''quota''"
  using summarize_first_ten_and_fallbacks
    [of "\<lambda>_. AiThrows ''quota''" "''performance''" "[''slow'', ''down'']" "''quota''"]
  by simp

section \<open>Properties of the overview\<close>

lemma sum_case_Nil: "sum_case c [] = Null"
  by (simp add: sum_case_def)

lemma avg_Nil: "avg [] = Null"
  by (simp add: avg_def non_null_def)

text \<open>
  A store whose only row is not analyzed: the overview reports a total of 0 and a
  mean sentiment of \<open>NULL\<close>, which is serialised as \<open>null\<close>.
\<close>

theorem overview_empty_mean_counterexample:
  "filter is_analyzed unanalyzed_store = [] \<and>
   column ''total_feedback'' (stats (getOverview unanalyzed_store)) = Integer 0 \<and>
   column ''avg_sentiment'' (stats (getOverview unanalyzed_store)) = Null \<and>
   column ''avg_sentiment'' (stats (getOverview unanalyzed_store)) \<noteq> Integer 0 \<and>
   column ''avg_sentiment'' (stats (getOverview unanalyzed_store)) \<noteq> Real 0 \<and>
   column ''avg_sentiment'' (stats (getOverview_v1 unanalyzed_store)) = Null"
  by code_simp

text \<open>
  C2 (as the code has it).  When no row of the store is analyzed, the overview is
  computed without an error and reports \<open>total_feedback = 0\<close>; its mean sentiment
  \<open>avg_sentiment\<close> is \<open>NULL\<close>, as are its five \<open>SUM\<close> counters.
\<close>

theorem overview_empty:
  "filter is_analyzed db = [] \<longrightarrow>
     stats (getOverview db) =
       [(''total_feedback'', Integer 0), (''positive'', Null), (''neutral'', Null),
        (''negative'', Null), (''critical_count'', Null), (''high_count'', Null),
        (''avg_sentiment'', Null)] \<and>
     stats (getOverview_v1 db) = stats (getOverview db) \<and>
     column ''total_feedback'' (stats (getOverview db)) = Integer 0 \<and>
     column ''avg_sentiment'' (stats (getOverview db)) = Null"
  by (simp add: getOverview_def getOverview_v1_def overview_stats_def count_star_def
      sum_case_Nil avg_Nil column_def)

theorem overview_empty_witness:
  "filter is_analyzed unanalyzed_store = [] \<and>
   column ''total_feedback'' (stats (getOverview unanalyzed_store)) = Integer 0 \<and>
   column ''avg_sentiment'' (stats (getOverview unanalyzed_store)) = Null"
proof -
  have "filter is_analyzed unanalyzed_store = []"
    by code_simp
  then show ?thesis
    using overview_empty [of unanalyzed_store] by blast
qed

lemma sentiment_counts_add_up:
  "list_all (\<lambda>r. sentiment r \<in> {Some ''positive'', Some ''neutral'', Some ''negative''}) rows \<Longrightarrow>
     (\<Sum>r\<leftarrow>rows. if sql_eq (sentiment r) ''positive'' then 1 else 0) +
     (\<Sum>r\<leftarrow>rows. if sql_eq (sentiment r) ''neutral'' then 1 else 0) +
     (\<Sum>r\<leftarrow>rows. if sql_eq (sentiment r) ''negative'' then 1 else 0) = int (length rows)"
  by (induction rows) (auto simp: sql_eq_def)

text \<open>
  C8.  When the set of analyzed rows is not empty and every analyzed row has a
  sentiment among positive, neutral and negative, the overview's positive, neutral
  and negative counts are integers whose sum is its total count.
\<close>

theorem overview_sentiment_counts_sum_to_total:
  "filter is_analyzed db \<noteq> [] \<and>
   list_all (\<lambda>r. sentiment r \<in> {Some ''positive'', Some ''neutral'', Some ''negative''})
     (filter is_analyzed db) \<longrightarrow>
     (\<exists>p n g. column ''positive'' (stats (getOverview db)) = Integer p \<and>
              column ''neutral'' (stats (getOverview db)) = Integer n \<and>
              column ''negative'' (stats (getOverview db)) = Integer g \<and>
              column ''total_feedback'' (stats (getOverview db)) = Integer (p + n + g) \<and>
              stats (getOverview_v1 db) = stats (getOverview db))"
  using sentiment_counts_add_up [of "filter is_analyzed db"]
  by (simp add: getOverview_def getOverview_v1_def overview_stats_def count_star_def
      sum_case_def column_def Let_def)

theorem overview_sentiment_counts_sum_to_total_witness:
  "filter is_analyzed small_store \<noteq> [] \<and>
   list_all (\<lambda>r. sentiment r \<in> {Some ''positive'', Some ''neutral'', Some ''negative''})
     (filter is_analyzed small_store) \<and>
   column ''positive'' (stats (getOverview small_store)) = Integer 1 \<and>
   column ''neutral'' (stats (getOverview small_store)) = Integer 1 \<and>
   column ''negative'' (stats (getOverview small_store)) = Integer 1 \<and>
   column ''total_feedback'' (stats (getOverview small_store)) = Integer 3"
proof -
  have 1: "filter is_analyzed small_store \<noteq> []"
    by code_simp
  have 2: "list_all (\<lambda>r. sentiment r \<in> {Some ''positive'', Some ''neutral'', Some ''negative''})
     (filter is_analyzed small_store)"
    by code_simp
  have 3: "column ''positive'' (stats (getOverview small_store)) = Integer 1"
    "column ''neutral'' (stats (getOverview small_store)) = Integer 1"
    "column ''negative'' (stats (getOverview small_store)) = Integer 1"
    by code_simp+
  from overview_sentiment_counts_sum_to_total [of small_store] 1 2 3
  show ?thesis by auto
qed

section \<open>Properties of the Top Themes view\<close>







section \<open>Properties of the trends\<close>

text \<open>
  C6.  For every store, in whatever order its rows are scanned, and for every reading
  \<open>DATE\<close> of the timestamps: the Sentiment Trend has at most 14 buckets, in strictly
  ascending date order; each bucket is one calendar day of the analyzed rows, with all
  the rows of that day; a day of the analyzed rows that has no bucket is older than
  each of the 14 days returned; and two stores with the same rows in a different
  order give the same dates and counts.
\<close>

theorem sentiment_trend_recent_ascending:
  "length (getSentimentTrend date_of db) \<le> 14 \<and>
   strictly_ascending_dates (getSentimentTrend date_of db) \<and>
   (\<forall>r \<in> set (getSentimentTrend date_of db).
      \<exists>d \<in> sql_date date_of ` set (filter is_analyzed db).
        r = trend_row (d, filter (\<lambda>x. sql_date date_of x = d) (filter is_analyzed db))) \<and>
   (\<forall>d \<in> sql_date date_of ` set (filter is_analyzed db).
      (\<exists>r \<in> set (getSentimentTrend date_of db). column ''date'' r = text_or_null d) \<or>
      (length (getSentimentTrend date_of db) = 14 \<and>
       (\<forall>r \<in> set (getSentimentTrend date_of db).
          sql_key (text_or_null d) < sql_key (column ''date'' r)))) \<and>
   (mset db = mset db' \<longrightarrow>
      map bucket_counts (getSentimentTrend date_of db) =
      map bucket_counts (getSentimentTrend date_of db'))"
proof -
  have "length (getSentimentTrend date_of db) \<le> 14 \<and>
   strictly_ascending_dates (getSentimentTrend date_of db) \<and>
   (\<forall>r \<in> set (getSentimentTrend date_of db).
      \<exists>d \<in> sql_date date_of ` set (filter is_analyzed db).
        r = trend_row (d, filter (\<lambda>x. sql_date date_of x = d) (filter is_analyzed db))) \<and>
   (\<forall>d \<in> sql_date date_of ` set (filter is_analyzed db).
      (\<exists>r \<in> set (getSentimentTrend date_of db). column ''date'' r = text_or_null d) \<or>
      (length (getSentimentTrend date_of db) = 14 \<and>
       (\<forall>r \<in> set (getSentimentTrend date_of db).
          sql_key (text_or_null d) < sql_key (column ''date'' r))))"
    using recent_buckets [where mk = trend_row and m = 14 and D = "sql_date date_of"
      and A = "filter is_analyzed db", OF trend_row_date]
    unfolding getSentimentTrend_def by simp
  with sentiment_trend_scan_order [of db db' date_of] show ?thesis
    by blast
qed

theorem sentiment_trend_recent_ascending_witness:
  "map (column ''date'') (getSentimentTrend iso_day fifteen_day_store) =
     [Text ''2024-01-02'', Text ''2024-01-03'', Text ''2024-01-04'', Text ''2024-01-05'',
      Text ''2024-01-06'', Text ''2024-01-07'', Text ''2024-01-08'', Text ''2024-01-09'',
      Text ''2024-01-10'', Text ''2024-01-11'', Text ''2024-01-12'', Text ''2024-01-13'',
      Text ''2024-01-14'', Text ''2024-01-15''] \<and>
   length (getSentimentTrend iso_day fifteen_day_store) \<le> 14 \<and>
   strictly_ascending_dates (getSentimentTrend iso_day fifteen_day_store) \<and>
   mset fifteen_day_store = mset (rev fifteen_day_store) \<and>
   map bucket_counts (getSentimentTrend iso_day fifteen_day_store) =
     map bucket_counts (getSentimentTrend iso_day (rev fifteen_day_store))"
proof -
  have "map (column ''date'') (getSentimentTrend iso_day fifteen_day_store) =
     [Text ''2024-01-02'', Text ''2024-01-03'', Text ''2024-01-04'', Text ''2024-01-05'',
      Text ''2024-01-06'', Text ''2024-01-07'', Text ''2024-01-08'', Text ''2024-01-09'',
      Text ''2024-01-10'', Text ''2024-01-11'', Text ''2024-01-12'', Text ''2024-01-13'',
      Text ''2024-01-14'', Text ''2024-01-15'']"
    by code_simp
  moreover have "mset fifteen_day_store = mset (rev fifteen_day_store)"
    by simp
  ultimately show ?thesis
    using sentiment_trend_recent_ascending [of iso_day fifteen_day_store "rev fifteen_day_store"]
    by blast
qed

text \<open>
  A theme with rows on eight days: the theme detail of \<open>feedback-analyser\<close> returns
  seven buckets and leaves out the oldest day, which is one of the 14 most recent.
\<close>

theorem theme_detail_v1_trend_counterexample:
  "(case getThemeDetail_v1 iso_day eight_day_store (Some ''pricing'') of
      Inl e \<Rightarrow> False
    | Inr d \<Rightarrow>
        map (column ''date'') (trend d) =
          [Text ''2024-01-11'', Text ''2024-01-12'', Text ''2024-01-13'', Text ''2024-01-14'',
           Text ''2024-01-15'', Text ''2024-01-16'', Text ''2024-01-17'']) \<and>
   remdups (map (sql_date iso_day) (of_theme ''pricing'' eight_day_store)) =
     [Some ''2024-01-10'', Some ''2024-01-11'', Some ''2024-01-12'', Some ''2024-01-13'',
      Some ''2024-01-17'', Some ''2024-01-16'', Some ''2024-01-15'', Some ''2024-01-14'']"
  by code_simp

text \<open>
  C3 (as the code has it).  For a given non-empty theme, the per-day trend of the
  Theme Detail is in strictly ascending date order and holds the most recent days of
  the analyzed rows of that theme, each with all its rows: the 14 most recent in
  \<open>feedback-analyser-2\<close>, the 7 most recent in \<open>feedback-analyser\<close>.
\<close>

theorem theme_detail_trend_recent_ascending:
  "th \<noteq> [] \<longrightarrow>
     (case getThemeDetail date_of db (Some th) of
        Inl e \<Rightarrow> False
      | Inr d \<Rightarrow>
          length (trend d) \<le> 14 \<and>
          strictly_ascending_dates (trend d) \<and>
          (\<forall>r \<in> set (trend d).
             \<exists>day \<in> sql_date date_of ` set (of_theme th db).
               r = theme_trend_row (day, filter (\<lambda>x. sql_date date_of x = day) (of_theme th db))) \<and>
          (\<forall>day \<in> sql_date date_of ` set (of_theme th db).
             (\<exists>r \<in> set (trend d). column ''date'' r = text_or_null day) \<or>
             (length (trend d) = 14 \<and>
              (\<forall>r \<in> set (trend d). sql_key (text_or_null day) < sql_key (column ''date'' r))))) \<and>
     (case getThemeDetail_v1 date_of db (Some th) of
        Inl e \<Rightarrow> False
      | Inr d \<Rightarrow>
          length (trend d) \<le> 7 \<and>
          strictly_ascending_dates (trend d) \<and>
          (\<forall>r \<in> set (trend d).
             \<exists>day \<in> sql_date date_of ` set (of_theme th db).
               r = theme_trend_row_v1 (day, filter (\<lambda>x. sql_date date_of x = day) (of_theme th db))) \<and>
          (\<forall>day \<in> sql_date date_of ` set (of_theme th db).
             (\<exists>r \<in> set (trend d). column ''date'' r = text_or_null day) \<or>
             (length (trend d) = 7 \<and>
              (\<forall>r \<in> set (trend d). sql_key (text_or_null day) < sql_key (column ''date'' r)))))"
  using theme_trend_buckets [of date_of th db] theme_trend_v1_buckets [of date_of th db]
  by (simp add: getThemeDetail_def getThemeDetail_v1_def)

theorem theme_detail_trend_recent_ascending_witness:
  "''pricing'' \<noteq> [] \<and>
   (case getThemeDetail iso_day eight_day_store (Some ''pricing'') of
      Inl e \<Rightarrow> False
    | Inr d \<Rightarrow>
        map (column ''date'') (trend d) =
          [Text ''2024-01-10'', Text ''2024-01-11'', Text ''2024-01-12'', Text ''2024-01-13'',
           Text ''2024-01-14'', Text ''2024-01-15'', Text ''2024-01-16'', Text ''2024-01-17''] \<and>
        length (trend d) \<le> 14 \<and> strictly_ascending_dates (trend d)) \<and>
   (case getThemeDetail_v1 iso_day eight_day_store (Some ''pricing'') of
      Inl e \<Rightarrow> False
    | Inr d \<Rightarrow>
        map (column ''date'') (trend d) =
          [Text ''2024-01-11'', Text ''2024-01-12'', Text ''2024-01-13'', Text ''2024-01-14'',
           Text ''2024-01-15'', Text ''2024-01-16'', Text ''2024-01-17''] \<and>
        length (trend d) \<le> 7 \<and> strictly_ascending_dates (trend d))"
proof -
  have 1: "(case getThemeDetail iso_day eight_day_store (Some ''pricing'') of
      Inl e \<Rightarrow> False
    | Inr d \<Rightarrow>
        map (column ''date'') (trend d) =
          [Text ''2024-01-10'', Text ''2024-01-11'', Text ''2024-01-12'', Text ''2024-01-13'',
           Text ''2024-01-14'', Text ''2024-01-15'', Text ''2024-01-16'', Text ''2024-01-17''])"
    by code_simp
  have 2: "(case getThemeDetail_v1 iso_day eight_day_store (Some ''pricing'') of
      Inl e \<Rightarrow> False
    | Inr d \<Rightarrow>
        map (column ''date'') (trend d) =
          [Text ''2024-01-11'', Text ''2024-01-12'', Text ''2024-01-13'', Text ''2024-01-14'',
           Text ''2024-01-15'', Text ''2024-01-16'', Text ''2024-01-17''])"
    by code_simp
  have 3: "''pricing'' \<noteq> []" by simp
  show ?thesis
    using 1 2 3 theme_detail_trend_recent_ascending [of "''pricing''" iso_day eight_day_store]
    by (auto split: sum.splits)
qed

section \<open>Properties of the listing\<close>



end
